theory Spec2Isabelle
  imports Main
begin

section \<open>Paths\<close>

text \<open>
  The toolkit manipulates \<^verbatim>\<open>std::filesystem::path\<close> values.  A path is modelled by its
  generic-format string on a POSIX system, where the only directory separator is the
  slash.  The operations below are the library operations the toolkit calls, written out
  for this representation; none of them normalises the string, except \<open>generic_string\<close>.
\<close>

type_synonym path = string

definition is_sep :: "char \<Rightarrow> bool" where
  "is_sep c = (c = CHR ''/'')"

text \<open>\<^verbatim>\<open>path::has_filename\<close>: the last path element is not empty.\<close>

definition has_filename :: "path \<Rightarrow> bool" where
  "has_filename p = (p \<noteq> [] \<and> \<not> is_sep (last p))"

text \<open>\<^verbatim>\<open>path::filename\<close>: what follows the last separator.\<close>

definition filename :: "path \<Rightarrow> path" where
  "filename p = rev (takeWhile (\<lambda>c. \<not> is_sep c) (rev p))"

text \<open>\<^verbatim>\<open>path::remove_filename\<close>: everything up to and including the last separator.\<close>

definition remove_filename :: "path \<Rightarrow> path" where
  "remove_filename p = rev (dropWhile (\<lambda>c. \<not> is_sep c) (rev p))"

text \<open>
  \<^verbatim>\<open>operator/\<close> and \<^verbatim>\<open>operator/=\<close>: an absolute right operand replaces the left one;
  otherwise a separator is inserted when the left operand ends in a file name.
\<close>

definition path_append :: "path \<Rightarrow> path \<Rightarrow> path" where
  "path_append p q =
     (if q \<noteq> [] \<and> is_sep (hd q) then q
      else if has_filename p then p @ ''/'' @ q
      else p @ q)"

text \<open>
  \<^verbatim>\<open>path::parent_path\<close>: a path without relative part is its own parent; otherwise the
  last element and the separators before it are dropped, a root directory being kept.
\<close>

definition parent_path :: "path \<Rightarrow> path" where
  "parent_path p =
     (if list_all is_sep p then p
      else let pre = rev (dropWhile is_sep (rev (remove_filename p)))
           in if pre = [] \<and> is_sep (hd p) then ''/'' else pre)"

text \<open>
  \<^verbatim>\<open>path::generic_string\<close>.  The toolkit is written against libstdc++ (it names
  \<^verbatim>\<open>std::chrono::_V2\<close>), whose \<^verbatim>\<open>generic_string\<close> joins the elements of the path with
  single separators: a run of separators becomes one separator.
\<close>

fun collapse_seps :: "string \<Rightarrow> string" where
  "collapse_seps (a # b # cs) =
     (if is_sep a \<and> is_sep b then collapse_seps (b # cs) else a # collapse_seps (b # cs))"
| "collapse_seps cs = cs"

definition generic_string :: "path \<Rightarrow> string" where
  "generic_string p = collapse_seps p"

definition temporary_file :: path where
  "temporary_file = ''temporary_file.txt''"

section \<open>The filesystem the toolkit runs against\<close>

datatype error =
    ios_failure string
  | filesystem_error

text \<open>
  The operating system is a parameter of every operation.  Its answers are independent
  observations, so that a listing may name an entry that is no longer present (a file
  deleted between the listing and the selection) and a file may be present without being
  openable (permissions).

  \<^item> \<open>current_path\<close>: the outcome of \<^verbatim>\<open>fs::current_path()\<close>, which throws
    \<^verbatim>\<open>filesystem_error\<close> when the working directory cannot be determined;
  \<^item> \<open>present\<close>: the path names a file, of any kind, on the filesystem;
  \<^item> \<open>directory\<close>: the path names a directory;
  \<^item> \<open>status_fails\<close>: the status query on the path fails with an error other than
    ``not found'' (a directory of the path may not be searched, a component is too long,
    too many symbolic links);
  \<^item> \<open>entries\<close>: what \<^verbatim>\<open>fs::directory_iterator\<close> enumerates, each entry with the answer
    of \<^verbatim>\<open>entry.is_directory()\<close> and its file name, in enumeration order; \<open>None\<close> when the
    enumeration throws \<^verbatim>\<open>filesystem_error\<close>;
  \<^item> \<open>openable_in\<close>, \<open>openable_out\<close>: whether an \<^verbatim>\<open>ifstream\<close>, an \<^verbatim>\<open>ofstream\<close> on the path
    \<^verbatim>\<open>is_open()\<close>;
  \<^item> \<open>bytes\<close>: the contents of a file.

  The exhaustion of memory is outside the model.
\<close>

record fsys =
  current_path :: "error + path"
  present :: "path \<Rightarrow> bool"
  directory :: "path \<Rightarrow> bool"
  status_fails :: "path \<Rightarrow> bool"
  entries :: "path \<Rightarrow> (bool \<times> string) list option"
  openable_in :: "path \<Rightarrow> bool"
  openable_out :: "path \<Rightarrow> bool"
  bytes :: "path \<Rightarrow> string"

text \<open>
  \<^verbatim>\<open>fs::exists(p)\<close> and \<^verbatim>\<open>fs::is_directory(p)\<close>, the overloads without an
  \<^verbatim>\<open>error_code\<close>: both ask for the status of the path and throw \<^verbatim>\<open>filesystem_error\<close> when
  the query fails; a path that is not found is answered with \<open>False\<close>.
\<close>

definition fs_exists :: "fsys \<Rightarrow> path \<Rightarrow> error + bool" where
  "fs_exists fs p = (if status_fails fs p then Inl filesystem_error else Inr (present fs p))"

definition fs_is_directory :: "fsys \<Rightarrow> path \<Rightarrow> error + bool" where
  "fs_is_directory fs p = (if status_fails fs p then Inl filesystem_error else Inr (directory fs p))"

section \<open>\<^verbatim>\<open>file_t\<close>\<close>

text \<open>
  The class has three private members: \<^verbatim>\<open>std::size_t size_{}\<close>, \<^verbatim>\<open>std::string text_\<close> and
  \<^verbatim>\<open>fs::path path_\<close>, here the fields \<open>size_m\<close>, \<open>text_m\<close> and \<open>path_m\<close> (a field name
  cannot end in an underscore).  The length of a \<^verbatim>\<open>std::string\<close> always fits
  \<^verbatim>\<open>std::size_t\<close>, so \<open>size_m\<close> is a natural number and no wrap-around arises.
\<close>

record file_t =
  size_m :: nat
  text_m :: string
  path_m :: path

text \<open>The members as they are before a constructor body runs without delegation.\<close>

definition members_init :: file_t where
  "members_init = \<lparr>size_m = 0, text_m = [], path_m = []\<rparr>"

subsection \<open>Setters and getters (identical in both revisions of \<^verbatim>\<open>tools.hpp\<close>)\<close>

text \<open>
  \<open>set_path\<close> either returns, with the handle as it is then (\<open>Inr\<close>), or throws what a
  query threw (\<open>Inl\<close>), with the handle as the exception leaves it: the second query runs
  after \<^verbatim>\<open>path_ = path\<close>.
\<close>

definition set_path :: "fsys \<Rightarrow> path \<Rightarrow> file_t \<Rightarrow> (error \<times> file_t) + file_t" where
  "set_path fs path f =
     (let tmp_path = remove_filename path in
      case fs_exists fs tmp_path of
        Inl e \<Rightarrow> Inl (e, f)
      | Inr ex \<Rightarrow>
          if ex then
            (let f1 = f\<lparr>path_m := path\<rparr> in
             case fs_is_directory fs path of
               Inl e \<Rightarrow> Inl (e, f1)
             | Inr d \<Rightarrow>
                 if d then Inr (f1\<lparr>path_m := path_append (path_m f1) temporary_file\<rparr>)
                 else Inr f1)
          else Inr f)"

definition set_text :: "string \<Rightarrow> file_t \<Rightarrow> file_t" where
  "set_text text f = (f\<lparr>text_m := text\<rparr>)\<lparr>size_m := length text\<rparr>"

text \<open>
  \<^verbatim>\<open>set_text(const char*, size_type)\<close> builds \<^verbatim>\<open>std::string(text, size)\<close> from the first
  \<open>size\<close> characters of the buffer, which the caller guarantees to be there.
\<close>

definition set_text_n :: "string \<Rightarrow> nat \<Rightarrow> file_t \<Rightarrow> file_t" where
  "set_text_n text n f = set_text (take n text) f"

definition get_text :: "file_t \<Rightarrow> string" where
  "get_text f = text_m f"

definition get_path_fs :: "file_t \<Rightarrow> path" where
  "get_path_fs f = path_m f"


definition size_of :: "file_t \<Rightarrow> nat" where
  "size_of f = size_m f"

subsection \<open>Constructors of \<^verbatim>\<open>src/tools.hpp\<close>\<close>

text \<open>
  A constructor returns the object or throws.  When \<open>set_path\<close> throws in a constructor
  body, the object under construction is gone and the exception remains.
\<close>

definition in_constructor :: "(error \<times> file_t) + file_t \<Rightarrow> error + file_t" where
  "in_constructor r = (case r of Inl (e, f) \<Rightarrow> Inl e | Inr f \<Rightarrow> Inr f)"

text \<open>
  Only the constructors taking no path delegate to the default constructor; the others
  start from default-initialised members.
\<close>

definition file_t_default :: "fsys \<Rightarrow> error + file_t" where
  "file_t_default fs =
     (case current_path fs of
        Inl e \<Rightarrow> Inl e
      | Inr cwd \<Rightarrow> Inr (members_init\<lparr>path_m := path_append cwd temporary_file\<rparr>))"

definition file_t_path :: "fsys \<Rightarrow> path \<Rightarrow> error + file_t" where
  "file_t_path fs path = in_constructor (set_path fs path members_init)"

definition file_t_text :: "fsys \<Rightarrow> string \<Rightarrow> error + file_t" where
  "file_t_text fs text =
     (case file_t_default fs of Inl e \<Rightarrow> Inl e | Inr f \<Rightarrow> Inr (set_text text f))"

definition file_t_text_n :: "fsys \<Rightarrow> string \<Rightarrow> nat \<Rightarrow> error + file_t" where
  "file_t_text_n fs text n =
     (case file_t_default fs of Inl e \<Rightarrow> Inl e | Inr f \<Rightarrow> Inr (set_text_n text n f))"

definition file_t_path_text :: "fsys \<Rightarrow> path \<Rightarrow> string \<Rightarrow> error + file_t" where
  "file_t_path_text fs path text =
     (case in_constructor (set_path fs path members_init) of
        Inl e \<Rightarrow> Inl e
      | Inr f \<Rightarrow> Inr (set_text text f))"

definition file_t_path_text_n :: "fsys \<Rightarrow> path \<Rightarrow> string \<Rightarrow> nat \<Rightarrow> error + file_t" where
  "file_t_path_text_n fs path text n =
     (case in_constructor (set_path fs path members_init) of
        Inl e \<Rightarrow> Inl e
      | Inr f \<Rightarrow> Inr (set_text_n text n f))"

subsection \<open>Constructors of the later revision (second header of \<^verbatim>\<open>unnamed/part_000\<close>)\<close>

text \<open>Every constructor delegates to the default constructor first.\<close>

definition file_t_path_v2 :: "fsys \<Rightarrow> path \<Rightarrow> error + file_t" where
  "file_t_path_v2 fs path =
     (case file_t_default fs of
        Inl e \<Rightarrow> Inl e
      | Inr f0 \<Rightarrow> in_constructor (set_path fs path f0))"

definition file_t_path_text_v2 :: "fsys \<Rightarrow> path \<Rightarrow> string \<Rightarrow> error + file_t" where
  "file_t_path_text_v2 fs path text =
     (case file_t_default fs of
        Inl e \<Rightarrow> Inl e
      | Inr f0 \<Rightarrow>
          (case in_constructor (set_path fs path f0) of
             Inl e \<Rightarrow> Inl e
           | Inr f \<Rightarrow> Inr (set_text text f)))"

definition file_t_path_text_n_v2 :: "fsys \<Rightarrow> path \<Rightarrow> string \<Rightarrow> nat \<Rightarrow> error + file_t" where
  "file_t_path_text_n_v2 fs path text n =
     (case file_t_default fs of
        Inl e \<Rightarrow> Inl e
      | Inr f0 \<Rightarrow>
          (case in_constructor (set_path fs path f0) of
             Inl e \<Rightarrow> Inl e
           | Inr f \<Rightarrow> Inr (set_text_n text n f)))"

section \<open>\<^verbatim>\<open>monitoring\<close>: reading, writing and creating files\<close>

text \<open>
  What a successful \<^verbatim>\<open>std::ofstream(path, std::ios::out)\<close> does to the filesystem: the
  file is present afterwards and is empty, and its directory enumerates it (at the end,
  when the name is new; the real position depends on the platform).
\<close>

definition fs_open_out :: "fsys \<Rightarrow> path \<Rightarrow> fsys" where
  "fs_open_out fs p =
     fs\<lparr>present := (present fs)(p := True),
        entries := (entries fs)(parent_path p :=
          map_option (\<lambda>es. if filename p \<in> snd ` set es then es else es @ [(False, filename p)])
            (entries fs (parent_path p))),
        bytes := (bytes fs)(p := [])\<rparr>"

text \<open>What \<^verbatim>\<open>file_stream << text\<close> does: the text is added at the end of the file.\<close>

definition fs_put :: "fsys \<Rightarrow> path \<Rightarrow> string \<Rightarrow> fsys" where
  "fs_put fs p text = fs\<lparr>bytes := (bytes fs)(p := bytes fs p @ text)\<rparr>"

definition cannot_open :: "path \<Rightarrow> error" where
  "cannot_open path = ios_failure (''Error: Cannot open file: '' @ generic_string (filename path))"

definition cannot_create :: "path \<Rightarrow> error" where
  "cannot_create path =
     ios_failure (''Error: Cannot create file: '' @ generic_string (filename path))"

text \<open>
  \<^verbatim>\<open>read_file(path_reference)\<close> of \<^verbatim>\<open>src/tools.hpp\<close>.  The guard
  \<^verbatim>\<open>!fs::exists(path) || fs::is_directory(path)\<close> asks the second question only when the
  first is answered with \<open>True\<close>.  The stream is read as a whole: \<open>file_size\<close> is the length
  of the file and the buffer holds its bytes.
\<close>

definition read_file :: "fsys \<Rightarrow> path \<Rightarrow> error + file_t" where
  "read_file fs path =
     (case fs_exists fs path of
        Inl e \<Rightarrow> Inl e
      | Inr ex \<Rightarrow>
          if \<not> ex then file_t_default fs
          else
            (case fs_is_directory fs path of
               Inl e \<Rightarrow> Inl e
             | Inr d \<Rightarrow>
                 if d then file_t_default fs
                 else if openable_in fs path then
                   (let file_size = length (bytes fs path); buffer = bytes fs path
                    in file_t_path_text_n fs path buffer file_size)
                 else Inl (cannot_open path)))"

text \<open>The same function in the later revision, which ends in that revision's constructor.\<close>

definition read_file_v2 :: "fsys \<Rightarrow> path \<Rightarrow> error + file_t" where
  "read_file_v2 fs path =
     (case fs_exists fs path of
        Inl e \<Rightarrow> Inl e
      | Inr ex \<Rightarrow>
          if \<not> ex then file_t_default fs
          else
            (case fs_is_directory fs path of
               Inl e \<Rightarrow> Inl e
             | Inr d \<Rightarrow>
                 if d then file_t_default fs
                 else if openable_in fs path then
                   (let file_size = length (bytes fs path); buffer = bytes fs path
                    in file_t_path_text_n_v2 fs path buffer file_size)
                 else Inl (cannot_open path)))"


text \<open>\<^verbatim>\<open>create_file(path_reference)\<close> of \<^verbatim>\<open>src/tools.hpp\<close>.\<close>

definition create_file :: "fsys \<Rightarrow> path \<Rightarrow> error + fsys" where
  "create_file fs path =
     (let tmp_path = remove_filename path in
      case fs_exists fs tmp_path of
        Inl e \<Rightarrow> Inl e
      | Inr ex \<Rightarrow>
          if ex then
            (case fs_is_directory fs path of
               Inl e \<Rightarrow> Inl e
             | Inr d \<Rightarrow>
                 (let new_file = (if d then path_append path temporary_file else path)
                  in if \<not> openable_out fs new_file then Inl (cannot_create new_file)
                     else Inr (fs_open_out fs new_file)))
          else Inr fs)"

text \<open>\<^verbatim>\<open>create_file(const file_t&)\<close>, the same in both revisions.\<close>

definition create_file_t :: "fsys \<Rightarrow> file_t \<Rightarrow> error + fsys" where
  "create_file_t fs file =
     (let path = get_path_fs file in
      if openable_out fs path then Inr (fs_put (fs_open_out fs path) path (get_text file))
      else Inl (cannot_create path))"

text \<open>\<^verbatim>\<open>create_file(path_reference)\<close> of the later revision.\<close>

definition create_file_v2 :: "fsys \<Rightarrow> path \<Rightarrow> error + fsys" where
  "create_file_v2 fs path =
     (case file_t_path_v2 fs path of
        Inl e \<Rightarrow> Inl e
      | Inr file \<Rightarrow> create_file_t fs file)"

section \<open>The directory browser\<close>

subsection \<open>\<^verbatim>\<open>std::to_string\<close> on the entry counter\<close>

definition digit_char :: "nat \<Rightarrow> char" where
  "digit_char d = ''0123456789'' ! d"

fun nat_to_string :: "nat \<Rightarrow> string" where
  "nat_to_string n =
     (if n < 10 then [digit_char n] else nat_to_string (n div 10) @ [digit_char (n mod 10)])"

declare nat_to_string.simps [simp del]

text \<open>
  The counter is an \<^verbatim>\<open>int\<close> that starts at 1 and is incremented once per entry.  It is
  modelled by an unbounded integer: the model agrees with the program for directories of
  fewer than \<open>2^31\<close> entries, beyond which the increment overflows (undefined behaviour).
\<close>

definition to_string :: "int \<Rightarrow> string" where
  "to_string i = (if i < 0 then CHR ''-'' # nat_to_string (nat (- i)) else nat_to_string (nat i))"

subsection \<open>The token table\<close>

text \<open>\<^verbatim>\<open>std::map<std::string, std::pair<bool, std::string>>\<close>.\<close>

type_synonym table = "string \<rightharpoonup> bool \<times> string"

text \<open>The \<^verbatim>\<open>for\<close> loop over the directory entries, shared by every variant.\<close>

fun print_entries :: "int \<Rightarrow> (bool \<times> string) list \<Rightarrow> table \<Rightarrow> table" where
  "print_entries num [] dirs = dirs"
| "print_entries num ((is_dir, name) # es) dirs =
     print_entries (num + 1) es
       (if is_dir then dirs(to_string num \<mapsto> (True, name))
        else dirs(to_string num \<mapsto> (False, name)))"

text \<open>
  \<^verbatim>\<open>monitoring::print_filesystem\<close> of \<^verbatim>\<open>src/tools.hpp\<close>: the member \<^verbatim>\<open>dirs_\<close> is written
  entry by entry and is not emptied first.  Console output is not part of the model.
\<close>

definition print_filesystem :: "fsys \<Rightarrow> string \<Rightarrow> table \<Rightarrow> error + table" where
  "print_filesystem fs path dirs =
     (case entries fs path of
        None \<Rightarrow> Inl filesystem_error
      | Some es \<Rightarrow> Inr (print_entries 1 es dirs))"

text \<open>The later revision calls \<^verbatim>\<open>dirs_.clear()\<close> before the loop.\<close>

definition print_filesystem_v2 :: "fsys \<Rightarrow> string \<Rightarrow> table \<Rightarrow> error + table" where
  "print_filesystem_v2 fs path dirs =
     (let dirs0 = Map.empty in
      case entries fs path of
        None \<Rightarrow> Inl filesystem_error
      | Some es \<Rightarrow> Inr (print_entries 1 es dirs0))"

text \<open>
  \<^verbatim>\<open>filesystem_monitoring::get_file_path\<close> (\<^verbatim>\<open>unnamed/part_001\<close> and the first header of
  \<^verbatim>\<open>unnamed/part_000\<close>) lists inside the loop body, into a map local to the iteration.
\<close>

definition fm_list :: "fsys \<Rightarrow> path \<Rightarrow> error + table" where
  "fm_list fs path =
     (let dirs = Map.empty in
      case entries fs (generic_string path) of
        None \<Rightarrow> Inl filesystem_error
      | Some es \<Rightarrow> Inr (print_entries 1 es dirs))"

subsection \<open>One selection\<close>

text \<open>
  \<^verbatim>\<open>std::cin >> s\<close> on a string that was just declared: the next token, or the empty
  string when the input is exhausted.
\<close>

fun read_token :: "string list \<Rightarrow> string \<times> string list" where
  "read_token [] = ([], [])"
| "read_token (t # ts) = (t, ts)"

text \<open>
  How one pass through the loop body ends: \<^verbatim>\<open>break\<close>, \<^verbatim>\<open>return\<close> of a string, or the next
  iteration (by \<^verbatim>\<open>continue\<close> or by reaching the end of the body) with the filesystem, the
  local variable \<^verbatim>\<open>path\<close> and the remaining input as they are then.
\<close>

datatype flow =
    Break
  | Return string
  | Continue fsys path "string list"

text \<open>The part of the loop body of \<^verbatim>\<open>monitoring::get_file_path\<close> after the rendering
  (\<^verbatim>\<open>src/tools.hpp\<close>).\<close>

definition select :: "fsys \<Rightarrow> path \<Rightarrow> table \<Rightarrow> string list \<Rightarrow> error + flow" where
  "select fs path dirs inp =
     (let (opt, inp1) = read_token inp in
      if opt = ''0'' then Inr Break
      else if opt = ''b'' then Inr (Continue fs (parent_path path) inp1)
      else if opt = ''c'' then
        (let (fname, inp2) = read_token inp1 in
         case create_file fs (path_append path fname) of
           Inl e \<Rightarrow> Inl e
         | Inr fs' \<Rightarrow> Inr (Continue fs' path inp2))
      else
        (case dirs opt of
           Some (is_dir, name) \<Rightarrow>
             (let path' = path_append path name in
              if \<not> is_dir then
                (let path_str = generic_string path' in
                 case fs_exists fs path_str of
                   Inl e \<Rightarrow> Inl e
                 | Inr ex \<Rightarrow>
                     if \<not> ex then Inr (Continue fs path' inp1)
                     else Inr (Return path_str))
              else Inr (Continue fs path' inp1))
         | None \<Rightarrow> Inr (Continue fs path inp1)))"

text \<open>The same part in the later revision, with the token \<^verbatim>\<open>d\<close>.\<close>

definition select_v2 :: "fsys \<Rightarrow> path \<Rightarrow> table \<Rightarrow> string list \<Rightarrow> error + flow" where
  "select_v2 fs path dirs inp =
     (let path_str0 = generic_string path; (opt, inp1) = read_token inp in
      if opt = ''0'' then Inr Break
      else if opt = ''d'' then Inr (Return path_str0)
      else if opt = ''b'' then Inr (Continue fs (parent_path path) inp1)
      else if opt = ''c'' then
        (let (fname, inp2) = read_token inp1 in
         case create_file_v2 fs (path_append path fname) of
           Inl e \<Rightarrow> Inl e
         | Inr fs' \<Rightarrow> Inr (Continue fs' path inp2))
      else
        (case dirs opt of
           Some (is_dir, name) \<Rightarrow>
             (let path' = path_append path name in
              if \<not> is_dir then
                (let path_str = generic_string path' in
                 case fs_exists fs path_str of
                   Inl e \<Rightarrow> Inl e
                 | Inr ex \<Rightarrow>
                     if \<not> ex then Inr (Continue fs path' inp1)
                     else Inr (Return path_str))
              else Inr (Continue fs path' inp1))
         | None \<Rightarrow> Inr (Continue fs path inp1)))"

text \<open>
  The same part in \<^verbatim>\<open>filesystem_monitoring::get_file_path\<close>, which opens and closes the
  new file itself and does not look at whether the stream is open.
\<close>

definition fm_select :: "fsys \<Rightarrow> path \<Rightarrow> table \<Rightarrow> string list \<Rightarrow> error + flow" where
  "fm_select fs path dirs inp =
     (let (opt, inp1) = read_token inp in
      if opt = ''0'' then Inr Break
      else if opt = ''b'' then Inr (Continue fs (parent_path path) inp1)
      else if opt = ''c'' then
        (let (fname, inp2) = read_token inp1;
             file = path_append path fname;
             fs' = (if openable_out fs file then fs_open_out fs file else fs)
         in Inr (Continue fs' path inp2))
      else
        (case dirs opt of
           Some (is_dir, name) \<Rightarrow>
             (let path' = path_append path name in
              if \<not> is_dir then
                (case fs_exists fs (generic_string path') of
                   Inl e \<Rightarrow> Inl e
                 | Inr ex \<Rightarrow>
                     if \<not> ex then Inr (Continue fs path' inp1)
                     else Inr (Return (generic_string path')))
              else Inr (Continue fs path' inp1))
         | None \<Rightarrow> Inr (Continue fs path inp1)))"

subsection \<open>The loop\<close>

text \<open>
  The loop ends only by \<^verbatim>\<open>break\<close>, \<^verbatim>\<open>return\<close> or an exception; on exhausted input it
  renders forever.  \<open>None\<close> is the browser that never returns.
\<close>

partial_function (option) get_file_path_loop ::
  "fsys \<Rightarrow> path \<Rightarrow> table \<Rightarrow> string list \<Rightarrow> (error + string) option" where
  "get_file_path_loop fs path dirs inp =
     (let path_str = generic_string path in
      case print_filesystem fs path_str dirs of
        Inl e \<Rightarrow> Some (Inl e)
      | Inr dirs' \<Rightarrow>
          (case select fs path dirs' inp of
             Inl e \<Rightarrow> Some (Inl e)
           | Inr Break \<Rightarrow> Some (Inr [])
           | Inr (Return s) \<Rightarrow> Some (Inr s)
           | Inr (Continue fs' path' inp') \<Rightarrow> get_file_path_loop fs' path' dirs' inp'))"

definition get_file_path :: "fsys \<Rightarrow> table \<Rightarrow> string list \<Rightarrow> (error + string) option" where
  "get_file_path fs dirs inp =
     (case current_path fs of
        Inl e \<Rightarrow> Some (Inl e)
      | Inr cwd \<Rightarrow> get_file_path_loop fs cwd dirs inp)"

partial_function (option) get_file_path_loop_v2 ::
  "fsys \<Rightarrow> path \<Rightarrow> table \<Rightarrow> string list \<Rightarrow> (error + string) option" where
  "get_file_path_loop_v2 fs path dirs inp =
     (let path_str = generic_string path in
      case print_filesystem_v2 fs path_str dirs of
        Inl e \<Rightarrow> Some (Inl e)
      | Inr dirs' \<Rightarrow>
          (case select_v2 fs path dirs' inp of
             Inl e \<Rightarrow> Some (Inl e)
           | Inr Break \<Rightarrow> Some (Inr [])
           | Inr (Return s) \<Rightarrow> Some (Inr s)
           | Inr (Continue fs' path' inp') \<Rightarrow> get_file_path_loop_v2 fs' path' dirs' inp'))"

definition get_file_path_v2 :: "fsys \<Rightarrow> table \<Rightarrow> string list \<Rightarrow> (error + string) option" where
  "get_file_path_v2 fs dirs inp =
     (case current_path fs of
        Inl e \<Rightarrow> Some (Inl e)
      | Inr cwd \<Rightarrow> get_file_path_loop_v2 fs cwd dirs inp)"

partial_function (option) fm_get_file_path_loop ::
  "fsys \<Rightarrow> path \<Rightarrow> string list \<Rightarrow> (error + string) option" where
  "fm_get_file_path_loop fs path inp =
     (case fm_list fs path of
        Inl e \<Rightarrow> Some (Inl e)
      | Inr dirs \<Rightarrow>
          (case fm_select fs path dirs inp of
             Inl e \<Rightarrow> Some (Inl e)
           | Inr Break \<Rightarrow> Some (Inr [])
           | Inr (Return s) \<Rightarrow> Some (Inr s)
           | Inr (Continue fs' path' inp') \<Rightarrow> fm_get_file_path_loop fs' path' inp'))"

definition fm_get_file_path :: "fsys \<Rightarrow> string list \<Rightarrow> (error + string) option" where
  "fm_get_file_path fs inp =
     (case current_path fs of
        Inl e \<Rightarrow> Some (Inl e)
      | Inr cwd \<Rightarrow> fm_get_file_path_loop fs cwd inp)"

section \<open>Concrete filesystems used to exercise the theorems\<close>

text \<open>
  A filesystem with the directories \<^verbatim>\<open>/\<close>, \<^verbatim>\<open>/home\<close> and \<^verbatim>\<open>/home/docs\<close> (empty), the file
  \<^verbatim>\<open>/home/a.txt\<close>, which holds \<^verbatim>\<open>hello\<close>, and the file \<^verbatim>\<open>/home/locked.txt\<close>, which
  no stream can open.  The process runs in \<^verbatim>\<open>/home\<close> and every status query answers.
\<close>

definition fs_home :: fsys where
  "fs_home =
     \<lparr>current_path = Inr ''/home'',
      present = (\<lambda>p. p \<in> set [''/'', ''/home'', ''/home/'', ''/home/docs'', ''/home/docs/'',
        ''/home/a.txt'', ''/home/locked.txt'']),
      directory = (\<lambda>p. p \<in> set [''/'', ''/home'', ''/home/'', ''/home/docs'',
        ''/home/docs/'']),
      status_fails = (\<lambda>p. False),
      entries = (\<lambda>p. if p = ''/'' then Some [(True, ''home'')]
                     else if p = ''/home'' then
                       Some [(False, ''a.txt''), (True, ''docs''), (False, ''locked.txt'')]
                     else if p = ''/home/docs'' then Some []
                     else None),
      openable_in = (\<lambda>p. p = ''/home/a.txt''),
      openable_out = (\<lambda>p. p = ''/home/a.txt''),
      bytes = (\<lambda>p. if p = ''/home/a.txt'' then ''hello'' else [])\<rparr>"

text \<open>
  The same filesystem after \<^verbatim>\<open>/home/a.txt\<close> was deleted, as seen by a browser that
  still shows the listing made before: the enumeration names the file, the existence check
  denies it.
\<close>

definition fs_stale :: fsys where
  "fs_stale = fs_home\<lparr>present := (\<lambda>p. p \<noteq> ''/home/a.txt'' \<and> present fs_home p)\<rparr>"

text \<open>
  The same filesystem for a process that may not search \<^verbatim>\<open>/home/docs\<close>: nothing is
  present below that directory, and the status query on a path below it fails
  (permission denied).
\<close>

definition fs_sealed :: fsys where
  "fs_sealed =
     fs_home\<lparr>status_fails := (\<lambda>p. p \<in> set [''/home/docs/x'', ''/home/docs/x/'',
       ''/home/docs/x/f.txt''])\<rparr>"

text \<open>The same filesystem for a process whose working directory cannot be determined.\<close>

definition fs_nocwd :: fsys where
  "fs_nocwd = fs_home\<lparr>current_path := Inl filesystem_error\<rparr>"

text \<open>The handle that default construction gives in \<^verbatim>\<open>/home\<close>.\<close>

definition handle_home :: file_t where
  "handle_home = \<lparr>size_m = 0, text_m = [], path_m = ''/home/temporary_file.txt''\<rparr>"

text \<open>The token table a browser builds from the listing of \<^verbatim>\<open>/home\<close>.\<close>

definition table_home :: table where
  "table_home =
     [''1'' \<mapsto> (False, ''a.txt''), ''2'' \<mapsto> (True, ''docs''), ''3'' \<mapsto> (False, ''locked.txt'')]"

section \<open>Properties of paths\<close>



text \<open>A path without two separators in a row is its own generic string.\<close>

lemma generic_string_no_double:
  "\<forall>i. Suc i < length p \<longrightarrow> \<not> (is_sep (p ! i) \<and> is_sep (p ! Suc i)) \<Longrightarrow> generic_string p = p"
  unfolding generic_string_def
proof (induction p rule: collapse_seps.induct)
  case (1 a b cs)
  from "1.prems" have ab: "\<not> (is_sep a \<and> is_sep b)" by (metis length_Cons nth_Cons_0 nth_Cons_Suc zero_less_Suc Suc_less_eq)
  have "\<forall>i. Suc i < length (b # cs) \<longrightarrow> \<not> (is_sep ((b # cs) ! i) \<and> is_sep ((b # cs) ! Suc i))"
  proof (intro allI impI)
    fix i assume "Suc i < length (b # cs)"
    then have "Suc (Suc i) < length (a # b # cs)" by simp
    with "1.prems" have "\<not> (is_sep ((a # b # cs) ! Suc i) \<and> is_sep ((a # b # cs) ! Suc (Suc i)))"
      by blast
    then show "\<not> (is_sep ((b # cs) ! i) \<and> is_sep ((b # cs) ! Suc i))" by simp
  qed
  with "1.IH"(2) ab have "collapse_seps (b # cs) = b # cs" by blast
  with ab show ?case by simp
qed simp_all

lemma generic_string_home:
  "generic_string ''/home'' = ''/home''"
  "generic_string ''/home/a.txt'' = ''/home/a.txt''"
  "generic_string ''/home/b.txt'' = ''/home/b.txt''"
  "generic_string ''/home/docs'' = ''/home/docs''"
  "generic_string ''/home//b.txt'' = ''/home/b.txt''"
  by (simp_all add: generic_string_def is_sep_def)

section \<open>Properties of \<^verbatim>\<open>file_t\<close>\<close>

lemma set_text_fields:
  "text_m (set_text t f) = t" "size_m (set_text t f) = length t" "path_m (set_text t f) = path_m f"
  by (simp_all add: set_text_def)

lemma set_path_keeps_text:
  "set_path fs p f = Inr f' \<Longrightarrow> text_m f' = text_m f \<and> size_m f' = size_m f"
  "set_path fs p f = Inl (e, f') \<Longrightarrow> text_m f' = text_m f \<and> size_m f' = size_m f"
  by (auto simp add: set_path_def Let_def split: sum.splits if_splits)

lemma fs_home_answers:
  "fs_exists fs_home p = Inr (present fs_home p)"
  "fs_is_directory fs_home p = Inr (directory fs_home p)"
  by (simp_all add: fs_exists_def fs_is_directory_def fs_home_def)

lemma file_t_default_home: "file_t_default fs_home = Inr handle_home"
  by (simp add: file_t_default_def members_init_def handle_home_def fs_home_def
      path_append_def has_filename_def is_sep_def temporary_file_def)

text \<open>
  C3, as stated, fails.  For a process that may not search \<^verbatim>\<open>/home/docs\<close>, the parent of
  \<^verbatim>\<open>/home/docs/x/f.txt\<close> does not exist, and \<open>set_path\<close> raises the \<^verbatim>\<open>filesystem_error\<close> of
  the existence check instead of returning.
\<close>

theorem set_path_missing_parent_raises:
  "\<not> present fs_sealed (remove_filename ''/home/docs/x/f.txt'')
   \<and> set_path fs_sealed ''/home/docs/x/f.txt'' handle_home = Inl (filesystem_error, handle_home)"
  by (simp add: set_path_def fs_exists_def fs_sealed_def fs_home_def remove_filename_def
      is_sep_def)

text \<open>
  C3, amended.  When the existence check on the path obtained from \<open>new_path\<close> by removing
  its final segment answers that it does not exist, \<open>set_path\<close> returns, and returns the
  handle as it was: the stored path is still \<open>P\<close>, and so are the buffer and the size.
\<close>

theorem set_path_missing_parent_noop:
  "fs_exists fs (remove_filename new_path) = Inr False \<Longrightarrow> set_path fs new_path f = Inr f"
  by (simp add: set_path_def)

theorem set_path_missing_parent_noop_witness:
  "fs_exists fs_home (remove_filename ''/nowhere/x.txt'') = Inr False
   \<and> set_path fs_home ''/nowhere/x.txt'' handle_home = Inr handle_home
   \<and> get_path_fs handle_home = ''/home/temporary_file.txt''"
proof -
  have h: "fs_exists fs_home (remove_filename ''/nowhere/x.txt'') = Inr False"
    by (simp add: fs_home_answers, simp add: fs_home_def remove_filename_def is_sep_def)
  from h set_path_missing_parent_noop [OF h, of handle_home] show ?thesis
    by (simp add: handle_home_def get_path_fs_def)
qed

text \<open>When the existence check itself fails, \<open>set_path\<close> raises and the handle is as it was.\<close>

lemma set_path_check_fails:
  "fs_exists fs (remove_filename new_path) = Inl e \<Longrightarrow> set_path fs new_path f = Inl (e, f)"
  by (simp add: set_path_def)



text \<open>
  Every constructor of either revision, when it returns, leaves the size equal to the
  buffer's length.
\<close>

lemma ctor_size_consistent:
  "file_t_default fs = Inr f \<Longrightarrow> size_m f = length (text_m f)"
  "file_t_path fs p = Inr f \<Longrightarrow> size_m f = length (text_m f)"
  "file_t_text fs t = Inr f \<Longrightarrow> size_m f = length (text_m f)"
  "file_t_text_n fs t n = Inr f \<Longrightarrow> size_m f = length (text_m f)"
  "file_t_path_text fs p t = Inr f \<Longrightarrow> size_m f = length (text_m f)"
  "file_t_path_text_n fs p t n = Inr f \<Longrightarrow> size_m f = length (text_m f)"
  "file_t_path_v2 fs p = Inr f \<Longrightarrow> size_m f = length (text_m f)"
  "file_t_path_text_v2 fs p t = Inr f \<Longrightarrow> size_m f = length (text_m f)"
  "file_t_path_text_n_v2 fs p t n = Inr f \<Longrightarrow> size_m f = length (text_m f)"
  by (auto simp add: file_t_default_def file_t_path_def file_t_text_def file_t_text_n_def
      file_t_path_text_def file_t_path_text_n_def file_t_path_v2_def file_t_path_text_v2_def
      file_t_path_text_n_v2_def set_text_n_def set_text_fields members_init_def
      in_constructor_def
      split: sum.splits prod.splits dest!: set_path_keeps_text(1))







text \<open>
  C5.  In \<^verbatim>\<open>src/tools.hpp\<close> the constructors that take a path do not delegate to the default
  constructor.  Constructed from \<^verbatim>\<open>/nowhere/x.txt\<close>, whose parent does not exist, the
  handle has the empty path, whereas default construction followed by the same \<open>set_path\<close>
  has \<^verbatim>\<open>/home/temporary_file.txt\<close>.  The later revision delegates and gives the latter.
\<close>

theorem path_constructor_skips_default:
  "fs_exists fs_home (remove_filename ''/nowhere/x.txt'') = Inr False
   \<and> file_t_path fs_home ''/nowhere/x.txt'' = Inr members_init
   \<and> get_path_fs members_init = []
   \<and> file_t_path_text fs_home ''/nowhere/x.txt'' ''data'' = Inr (set_text ''data'' members_init)
   \<and> get_path_fs (set_text ''data'' members_init) = []
   \<and> file_t_default fs_home = Inr handle_home
   \<and> set_path fs_home ''/nowhere/x.txt'' handle_home = Inr handle_home
   \<and> get_path_fs handle_home = ''/home/temporary_file.txt''
   \<and> file_t_path fs_home ''/nowhere/x.txt'' \<noteq> Inr handle_home
   \<and> file_t_path_v2 fs_home ''/nowhere/x.txt'' = Inr handle_home"
proof -
  have h: "fs_exists fs_home (remove_filename ''/nowhere/x.txt'') = Inr False"
    by (simp add: fs_home_answers, simp add: fs_home_def remove_filename_def is_sep_def)
  have s: "set_path fs_home ''/nowhere/x.txt'' f = Inr f" for f
    using h by (simp add: set_path_def)
  have g: "get_path_fs members_init = []" "get_path_fs (set_text ''data'' members_init) = []"
    "get_path_fs handle_home = ''/home/temporary_file.txt''"
    by (simp_all add: get_path_fs_def members_init_def set_text_fields handle_home_def)
  from g(1) g(3) have ne: "members_init \<noteq> handle_home" by auto
  from h s g ne show ?thesis
    by (simp add: file_t_path_def file_t_path_text_def file_t_path_v2_def in_constructor_def
        file_t_default_home)
qed

text \<open>
  In general: with a parent that the existence check denies, the path constructors of the
  later revision give what the constructors without a path give, and those of
  \<^verbatim>\<open>src/tools.hpp\<close> give the empty path.
\<close>

lemma constructors_v2_missing_parent:
  "fs_exists fs (remove_filename p) = Inr False \<Longrightarrow>
     file_t_path_v2 fs p = file_t_default fs
     \<and> file_t_path_text_v2 fs p t = file_t_text fs t
     \<and> file_t_path_text_n_v2 fs p t n = file_t_text_n fs t n"
  by (simp add: file_t_path_v2_def file_t_path_text_v2_def file_t_path_text_n_v2_def
      file_t_text_def file_t_text_n_def set_path_def in_constructor_def split: sum.splits)

lemma constructors_missing_parent:
  "fs_exists fs (remove_filename p) = Inr False \<Longrightarrow>
     file_t_path fs p = Inr members_init
     \<and> file_t_path_text fs p t = Inr (set_text t members_init)
     \<and> file_t_path_text_n fs p t n = Inr (set_text_n t n members_init)
     \<and> get_path_fs members_init = []
     \<and> get_path_fs (set_text t members_init) = []
     \<and> get_path_fs (set_text_n t n members_init) = []"
  by (simp add: file_t_path_def file_t_path_text_def file_t_path_text_n_def set_text_n_def
      set_path_def get_path_fs_def set_text_fields members_init_def in_constructor_def)

section \<open>Properties of reading and writing\<close>

text \<open>
  C10, as stated, fails.  For a process that may not search \<^verbatim>\<open>/home/docs\<close>, the path
  \<^verbatim>\<open>/home/docs/x/f.txt\<close> does not exist and \<open>read_file\<close> raises the \<^verbatim>\<open>filesystem_error\<close> of the
  existence check.  For a process whose working directory cannot be determined, the path
  \<^verbatim>\<open>/home/missing.txt\<close> does not exist and \<open>read_file\<close> raises the \<^verbatim>\<open>filesystem_error\<close> of the
  default constructor.
\<close>

theorem read_file_missing_path_raises:
  "\<not> present fs_sealed ''/home/docs/x/f.txt''
   \<and> read_file fs_sealed ''/home/docs/x/f.txt'' = Inl filesystem_error
   \<and> read_file_v2 fs_sealed ''/home/docs/x/f.txt'' = Inl filesystem_error
   \<and> \<not> present fs_nocwd ''/home/missing.txt''
   \<and> read_file fs_nocwd ''/home/missing.txt'' = Inl filesystem_error
   \<and> read_file_v2 fs_nocwd ''/home/missing.txt'' = Inl filesystem_error"
  by (simp add: read_file_def read_file_v2_def fs_exists_def file_t_default_def fs_sealed_def
      fs_nocwd_def fs_home_def)

text \<open>
  C10, amended.  When the existence check on the path answers that it does not exist, or
  the directory check answers that it is a directory, \<open>read_file\<close> does what default
  construction does: when the working directory can be determined, it returns a fresh
  default handle, whose path is \<open>temporary_file.txt\<close> in the working directory, whose buffer
  is empty and whose size is 0.
\<close>

theorem read_file_missing_or_directory:
  "fs_exists fs p = Inr False \<or> fs_is_directory fs p = Inr True \<Longrightarrow>
     read_file fs p = file_t_default fs
     \<and> read_file_v2 fs p = file_t_default fs
     \<and> (current_path fs = Inr cwd \<longrightarrow>
          file_t_default fs
            = Inr \<lparr>size_m = 0, text_m = [], path_m = path_append cwd temporary_file\<rparr>
          \<and> get_path_fs \<lparr>size_m = 0, text_m = [], path_m = path_append cwd temporary_file\<rparr>
              = path_append cwd temporary_file
          \<and> get_text \<lparr>size_m = 0, text_m = [], path_m = path_append cwd temporary_file\<rparr> = []
          \<and> size_of \<lparr>size_m = 0, text_m = [], path_m = path_append cwd temporary_file\<rparr> = 0)"
  by (auto simp add: read_file_def read_file_v2_def file_t_default_def members_init_def
      get_path_fs_def get_text_def size_of_def fs_exists_def fs_is_directory_def
      split: if_splits)

theorem read_file_missing_or_directory_witness:
  "fs_exists fs_home ''/home/missing.txt'' = Inr False
   \<and> read_file fs_home ''/home/missing.txt'' = Inr handle_home
   \<and> read_file_v2 fs_home ''/home/missing.txt'' = Inr handle_home
   \<and> fs_is_directory fs_home ''/home/docs'' = Inr True
   \<and> read_file fs_home ''/home/docs'' = Inr handle_home
   \<and> read_file_v2 fs_home ''/home/docs'' = Inr handle_home
   \<and> current_path fs_home = Inr ''/home''
   \<and> get_path_fs handle_home = ''/home/temporary_file.txt''
   \<and> get_text handle_home = [] \<and> size_of handle_home = 0"
proof -
  have h1: "fs_exists fs_home ''/home/missing.txt'' = Inr False"
    and h2: "fs_is_directory fs_home ''/home/docs'' = Inr True"
    by (simp_all add: fs_home_answers, simp_all add: fs_home_def)
  have c: "current_path fs_home = Inr ''/home''" by (simp add: fs_home_def)
  have a: "path_append ''/home'' temporary_file = ''/home/temporary_file.txt''"
    by (simp add: path_append_def has_filename_def is_sep_def temporary_file_def)
  from read_file_missing_or_directory [of fs_home "''/home/missing.txt''" "''/home''"]
    read_file_missing_or_directory [of fs_home "''/home/docs''" "''/home''"] h1 h2 c a
  show ?thesis
    by (simp add: handle_home_def get_path_fs_def get_text_def size_of_def)
qed




section \<open>Properties of the directory browser\<close>

lemma select_zero: "select fs path dirs (''0'' # rest) = Inr Break"
  "select_v2 fs path dirs (''0'' # rest) = Inr Break"
  "fm_select fs path dirs (''0'' # rest) = Inr Break"
  by (simp_all add: select_def select_v2_def fm_select_def)

text \<open>
  C9.  Whatever the current path, the table and the rest of the input, the token \<^verbatim>\<open>0\<close> ends
  the loop body by \<^verbatim>\<open>break\<close>; a browser whose current path can be listed then returns the
  empty string, in all three variants.
\<close>

theorem select_zero_cancels:
  "entries fs (generic_string path) = Some es \<Longrightarrow>
     select fs path dirs' (''0'' # rest) = Inr Break
     \<and> select_v2 fs path dirs' (''0'' # rest) = Inr Break
     \<and> fm_select fs path dirs' (''0'' # rest) = Inr Break
     \<and> get_file_path_loop fs path dirs (''0'' # rest) = Some (Inr [])
     \<and> get_file_path_loop_v2 fs path dirs (''0'' # rest) = Some (Inr [])
     \<and> fm_get_file_path_loop fs path (''0'' # rest) = Some (Inr [])"
  by (simp add: select_zero get_file_path_loop.simps [of fs path dirs]
      get_file_path_loop_v2.simps [of fs path dirs] fm_get_file_path_loop.simps [of fs path]
      print_filesystem_def print_filesystem_v2_def fm_list_def)

theorem select_zero_cancels_witness:
  "entries fs_home (generic_string ''/home'')
     = Some [(False, ''a.txt''), (True, ''docs''), (False, ''locked.txt'')]
   \<and> get_file_path fs_home Map.empty [''0'', ''1''] = Some (Inr [])
   \<and> get_file_path_v2 fs_home Map.empty [''0'', ''1''] = Some (Inr [])
   \<and> fm_get_file_path fs_home [''0'', ''1''] = Some (Inr [])"
proof -
  have h: "entries fs_home (generic_string ''/home'')
     = Some [(False, ''a.txt''), (True, ''docs''), (False, ''locked.txt'')]"
    by (simp add: fs_home_def generic_string_home)
  have c: "current_path fs_home = Inr ''/home''" by (simp add: fs_home_def)
  from select_zero_cancels [OF h, of Map.empty "[''1'']" Map.empty] h c show ?thesis
    by (simp add: get_file_path_def get_file_path_v2_def fm_get_file_path_def)
qed

subsection \<open>Tokens are distinct\<close>

lemma digit_char_inj:
  assumes "a < 10" "b < 10" "digit_char a = digit_char b"
  shows "a = b"
proof -
  have e: "x < 10 \<Longrightarrow> x \<in> {0, 1, 2, 3, 4, 5, 6, 7, 8, 9}" for x :: nat
    by auto
  from e [OF assms(1)] e [OF assms(2)] assms(3) show ?thesis
    by (auto simp add: digit_char_def)
qed

lemma nat_to_string_length: "10 \<le> n \<Longrightarrow> 2 \<le> length (nat_to_string n)"
  by (subst nat_to_string.simps, simp, subst nat_to_string.simps, simp)

lemma nat_to_string_small: "n < 10 \<Longrightarrow> nat_to_string n = [digit_char n]"
  by (subst nat_to_string.simps) simp

lemma nat_to_string_big:
  "10 \<le> n \<Longrightarrow> nat_to_string n = nat_to_string (n div 10) @ [digit_char (n mod 10)]"
  by (subst nat_to_string.simps) simp

lemma nat_to_string_inj: "nat_to_string m = nat_to_string n \<Longrightarrow> m = n"
proof (induction m arbitrary: n rule: nat_to_string.induct)
  case (1 m)
  show ?case
  proof (cases "m < 10")
    case True
    show ?thesis
    proof (cases "n < 10")
      case True
      with \<open>m < 10\<close> "1.prems" show ?thesis
        by (simp add: nat_to_string_small digit_char_inj)
    next
      case False
      then have "2 \<le> length (nat_to_string n)" by (simp add: nat_to_string_length)
      moreover from \<open>m < 10\<close> have "length (nat_to_string m) = 1"
        by (simp add: nat_to_string_small)
      ultimately show ?thesis using "1.prems" by simp
    qed
  next
    case False
    show ?thesis
    proof (cases "n < 10")
      case True
      from False have "2 \<le> length (nat_to_string m)" by (simp add: nat_to_string_length)
      moreover from True have "length (nat_to_string n) = 1"
        by (simp add: nat_to_string_small)
      ultimately show ?thesis using "1.prems" by simp
    next
      case nb: False
      from False nb "1.prems"
      have "nat_to_string (m div 10) = nat_to_string (n div 10)"
        and d: "digit_char (m mod 10) = digit_char (n mod 10)"
        by (simp_all add: nat_to_string_big)
      with "1.IH" False have "m div 10 = n div 10" by simp
      moreover from d have "m mod 10 = n mod 10" by (simp add: digit_char_inj)
      ultimately show ?thesis by (metis div_mult_mod_eq)
    qed
  qed
qed

lemma to_string_inj: "0 \<le> i \<Longrightarrow> 0 \<le> j \<Longrightarrow> to_string i = to_string j \<Longrightarrow> i = j"
  by (auto simp add: to_string_def dest: nat_to_string_inj)

subsection \<open>What a rendering writes into the table\<close>

lemma print_entries_other:
  "\<forall>i<length es. s \<noteq> to_string (k + int i) \<Longrightarrow> print_entries k es dirs s = dirs s"
proof (induction es arbitrary: k dirs)
  case Nil
  then show ?case by simp
next
  case (Cons e es)
  obtain is_dir name where e: "e = (is_dir, name)" by (cases e)
  from Cons.prems have 0: "s \<noteq> to_string k" by force
  have "\<forall>i<length es. s \<noteq> to_string (k + 1 + int i)"
  proof (intro allI impI)
    fix i assume "i < length es"
    with Cons.prems have "s \<noteq> to_string (k + int (Suc i))" by (metis length_Cons Suc_less_eq)
    then show "s \<noteq> to_string (k + 1 + int i)" by (simp add: add.commute add.left_commute)
  qed
  from Cons.IH [OF this] 0 show ?case by (simp add: e)
qed

lemma print_entries_nth:
  "0 \<le> k \<Longrightarrow> i < length es \<Longrightarrow> print_entries k es dirs (to_string (k + int i)) = Some (es ! i)"
proof (induction es arbitrary: k dirs i)
  case Nil
  then show ?case by simp
next
  case (Cons e es)
  obtain is_dir name where e: "e = (is_dir, name)" by (cases e)
  show ?case
  proof (cases i)
    case 0
    have "\<forall>j<length es. to_string k \<noteq> to_string (k + 1 + int j)"
    proof (intro allI impI)
      fix j assume "j < length es"
      from Cons.prems(1) have "k \<noteq> k + 1 + int j" "0 \<le> k + 1 + int j" by simp_all
      with Cons.prems(1) show "to_string k \<noteq> to_string (k + 1 + int j)"
        using to_string_inj by blast
    qed
    from print_entries_other [OF this] 0 show ?thesis by (simp add: e)
  next
    case (Suc j)
    with Cons.prems have "j < length es" "0 \<le> k + 1" by simp_all
    from Cons.IH [OF this(2) this(1)] Suc show ?thesis
      by (simp add: e add.commute add.left_commute)
  qed
qed

lemma print_entries_dom:
  "dom (print_entries k es dirs) = dom dirs \<union> (\<lambda>i. to_string (k + int i)) ` {..<length es}"
proof (induction es arbitrary: k dirs)
  case Nil
  then show ?case by simp
next
  case (Cons e es)
  obtain is_dir name where e: "e = (is_dir, name)" by (cases e)
  have "(\<lambda>i. to_string (k + int i)) ` {..<Suc (length es)}
      = insert (to_string k) ((\<lambda>i. to_string (k + 1 + int i)) ` {..<length es})"
    by (simp add: lessThan_Suc_eq_insert_0 image_image add.commute add.left_commute)
  with Cons.IH [of "k + 1"] show ?case by (auto simp add: e)
qed

text \<open>
  The renderings that start from an empty table (the later revision and
  \<^verbatim>\<open>filesystem_monitoring\<close>) map exactly the tokens \<open>1\<close> to \<open>n\<close> to the \<open>n\<close> entries, in
  enumeration order; the rendering of \<^verbatim>\<open>src/tools.hpp\<close> does so on top of the table it
  was given, whose other tokens stay.
\<close>

lemma fresh_table:
  "entries fs path = Some es \<Longrightarrow>
     (\<exists>t. print_filesystem_v2 fs path dirs = Inr t
        \<and> dom t = (\<lambda>i. to_string (1 + int i)) ` {..<length es}
        \<and> (\<forall>i<length es. t (to_string (1 + int i)) = Some (es ! i)))"
  by (simp add: print_filesystem_v2_def print_entries_dom print_entries_nth)

lemma fresh_table_fm:
  "entries fs (generic_string path) = Some es \<Longrightarrow>
     (\<exists>t. fm_list fs path = Inr t
        \<and> dom t = (\<lambda>i. to_string (1 + int i)) ` {..<length es}
        \<and> (\<forall>i<length es. t (to_string (1 + int i)) = Some (es ! i)))"
  by (simp add: fm_list_def print_entries_dom print_entries_nth)

lemma stale_table:
  "entries fs path = Some es \<Longrightarrow>
     (\<exists>t. print_filesystem fs path dirs = Inr t
        \<and> dom t = dom dirs \<union> (\<lambda>i. to_string (1 + int i)) ` {..<length es}
        \<and> (\<forall>i<length es. t (to_string (1 + int i)) = Some (es ! i))
        \<and> (\<forall>s. (\<forall>i<length es. s \<noteq> to_string (1 + int i)) \<longrightarrow> t s = dirs s))"
  by (simp add: print_filesystem_def print_entries_dom print_entries_nth print_entries_other)

subsection \<open>The browser on the concrete filesystems\<close>

lemma to_string_small:
  "to_string 1 = ''1''" "to_string 2 = ''2''" "to_string 3 = ''3''" "to_string 4 = ''4''"
  by (simp_all add: to_string_def nat_to_string.simps digit_char_def)

lemma print_home:
  "print_entries 1 [(False, ''a.txt''), (True, ''docs''), (False, ''locked.txt'')] Map.empty
     = table_home"
  by (simp add: table_home_def to_string_small)

lemma home_paths:
  "path_append ''/home'' ''a.txt'' = ''/home/a.txt''"
  "path_append ''/home'' ''docs'' = ''/home/docs''"
  by (simp_all add: path_append_def has_filename_def is_sep_def)

text \<open>
  C1.  The browser shows \<^verbatim>\<open>/home\<close>; token \<^verbatim>\<open>1\<close> is the file \<^verbatim>\<open>a.txt\<close>, which no longer
  exists when it is selected.  The loop body has already appended the name to \<^verbatim>\<open>path\<close>
  when it finds the file missing, so the next iteration starts from \<^verbatim>\<open>/home/a.txt\<close>, not
  from \<^verbatim>\<open>/home\<close>; its rendering cannot list that path and the browser ends with a
  \<^verbatim>\<open>filesystem_error\<close> instead of reading the token \<^verbatim>\<open>0\<close>.  All three variants agree.
\<close>

theorem stale_file_selection_moves_path:
  "print_filesystem fs_stale ''/home'' Map.empty = Inr table_home
   \<and> table_home ''1'' = Some (False, ''a.txt'')
   \<and> fs_exists fs_stale ''/home/a.txt'' = Inr False
   \<and> select fs_stale ''/home'' table_home [''1'', ''0'']
       = Inr (Continue fs_stale ''/home/a.txt'' [''0''])
   \<and> select_v2 fs_stale ''/home'' table_home [''1'', ''0'']
       = Inr (Continue fs_stale ''/home/a.txt'' [''0''])
   \<and> fm_select fs_stale ''/home'' table_home [''1'', ''0'']
       = Inr (Continue fs_stale ''/home/a.txt'' [''0''])
   \<and> get_file_path fs_stale Map.empty [''1'', ''0''] = Some (Inl filesystem_error)
   \<and> get_file_path_v2 fs_stale Map.empty [''1'', ''0''] = Some (Inl filesystem_error)
   \<and> fm_get_file_path fs_stale [''1'', ''0''] = Some (Inl filesystem_error)"
proof -
  have e: "entries fs_stale ''/home''
      = Some [(False, ''a.txt''), (True, ''docs''), (False, ''locked.txt'')]"
    "entries fs_stale ''/home/a.txt'' = None"
    and x: "fs_exists fs_stale ''/home/a.txt'' = Inr False"
    and c: "current_path fs_stale = Inr ''/home''"
    by (simp_all add: fs_exists_def fs_stale_def fs_home_def)
  have t: "table_home ''1'' = Some (False, ''a.txt'')"
    by (simp add: table_home_def)
  have p0: "print_filesystem fs_stale ''/home'' Map.empty = Inr table_home"
    by (simp add: print_filesystem_def e table_home_def to_string_small)
  have p: "print_filesystem_v2 fs_stale ''/home'' dirs = Inr table_home"
    "fm_list fs_stale ''/home'' = Inr table_home"
    "print_filesystem fs_stale ''/home/a.txt'' dirs = Inl filesystem_error"
    "print_filesystem_v2 fs_stale ''/home/a.txt'' dirs = Inl filesystem_error"
    "fm_list fs_stale ''/home/a.txt'' = Inl filesystem_error" for dirs
    by (simp_all add: print_filesystem_def print_filesystem_v2_def fm_list_def e table_home_def
        to_string_small generic_string_home)
  have s: "select fs_stale ''/home'' table_home [''1'', ''0'']
       = Inr (Continue fs_stale ''/home/a.txt'' [''0''])"
    "select_v2 fs_stale ''/home'' table_home [''1'', ''0'']
       = Inr (Continue fs_stale ''/home/a.txt'' [''0''])"
    "fm_select fs_stale ''/home'' table_home [''1'', ''0'']
       = Inr (Continue fs_stale ''/home/a.txt'' [''0''])"
    by (simp_all add: select_def select_v2_def fm_select_def t x home_paths generic_string_home)
  have l1: "get_file_path fs_stale Map.empty [''1'', ''0''] = Some (Inl filesystem_error)"
  proof -
    have "get_file_path_loop fs_stale ''/home'' Map.empty [''1'', ''0'']
        = get_file_path_loop fs_stale ''/home/a.txt'' table_home [''0'']"
      by (subst get_file_path_loop.simps) (simp add: generic_string_home p0 s)
    also have "\<dots> = Some (Inl filesystem_error)"
      by (subst get_file_path_loop.simps) (simp add: generic_string_home p)
    finally show ?thesis by (simp add: get_file_path_def c)
  qed
  have l2: "get_file_path_v2 fs_stale Map.empty [''1'', ''0''] = Some (Inl filesystem_error)"
  proof -
    have "get_file_path_loop_v2 fs_stale ''/home'' Map.empty [''1'', ''0'']
        = get_file_path_loop_v2 fs_stale ''/home/a.txt'' table_home [''0'']"
      by (subst get_file_path_loop_v2.simps) (simp add: generic_string_home p s)
    also have "\<dots> = Some (Inl filesystem_error)"
      by (subst get_file_path_loop_v2.simps) (simp add: generic_string_home p)
    finally show ?thesis by (simp add: get_file_path_v2_def c)
  qed
  have l3: "fm_get_file_path fs_stale [''1'', ''0''] = Some (Inl filesystem_error)"
  proof -
    have "fm_get_file_path_loop fs_stale ''/home'' [''1'', ''0'']
        = fm_get_file_path_loop fs_stale ''/home/a.txt'' [''0'']"
      by (subst fm_get_file_path_loop.simps) (simp add: p s)
    also have "\<dots> = Some (Inl filesystem_error)"
      by (subst fm_get_file_path_loop.simps) (simp add: p)
    finally show ?thesis by (simp add: fm_get_file_path_def c)
  qed
  from p0 t x s l1 l2 l3 show ?thesis by simp
qed

text \<open>
  C2.  In \<^verbatim>\<open>src/tools.hpp\<close> the table is not emptied before a rendering.  After \<^verbatim>\<open>/home\<close>
  (three entries) was rendered and token \<^verbatim>\<open>2\<close> led into the empty directory
  \<^verbatim>\<open>/home/docs\<close>, the rendering of \<^verbatim>\<open>/home/docs\<close> leaves the three tokens of \<^verbatim>\<open>/home\<close> in
  the table.  The later revision and \<^verbatim>\<open>filesystem_monitoring\<close> produce the empty table.
\<close>

theorem stale_tokens_survive_render:
  "print_filesystem fs_home ''/home'' Map.empty = Inr table_home
   \<and> select fs_home ''/home'' table_home [''2''] = Inr (Continue fs_home ''/home/docs'' [])
   \<and> entries fs_home ''/home/docs'' = Some []
   \<and> print_filesystem fs_home ''/home/docs'' table_home = Inr table_home
   \<and> table_home ''1'' = Some (False, ''a.txt'')
   \<and> table_home \<noteq> Map.empty
   \<and> print_filesystem_v2 fs_home ''/home/docs'' table_home = Inr Map.empty
   \<and> fm_list fs_home ''/home/docs'' = Inr Map.empty"
proof -
  have e: "entries fs_home ''/home''
      = Some [(False, ''a.txt''), (True, ''docs''), (False, ''locked.txt'')]"
    "entries fs_home ''/home/docs'' = Some []"
    by (simp_all add: fs_home_def)
  have t: "table_home ''1'' = Some (False, ''a.txt'')" "table_home ''2'' = Some (True, ''docs'')"
    by (simp_all add: table_home_def)
  have ne: "table_home \<noteq> Map.empty"
  proof
    assume "table_home = Map.empty"
    with t(1) show False by (metis option.distinct(1))
  qed
  have s: "select fs_home ''/home'' table_home [''2''] = Inr (Continue fs_home ''/home/docs'' [])"
    by (simp add: select_def t home_paths)
  have p: "print_filesystem fs_home ''/home'' Map.empty = Inr table_home"
    by (simp add: print_filesystem_def e table_home_def to_string_small)
  from e t ne s p show ?thesis
    by (simp add: print_filesystem_def print_filesystem_v2_def fm_list_def generic_string_home)
qed

end
